theory Spec2Isabelle
  imports Main
begin

section \<open>Errors raised by the password router\<close>

text \<open>
  The router throws two kinds of exception of its own: \<open>new TRPCError({code, message})\<close>
  and h3's \<open>createError({message, statusCode})\<close>. An exception raised by a collaborator
  (the hashing primitive, the store, the transaction handle) is a \<open>Thrown\<close> value that
  the router only propagates.
\<close>

datatype trpc_code = BAD_REQUEST | NOT_FOUND | METHOD_NOT_SUPPORTED | UNAUTHORIZED | FORBIDDEN

datatype error =
    TRPCError trpc_code string
  | H3Error nat string
  | Thrown string

text \<open>The spec's error kinds, as the exceptions the source throws for them.\<close>

abbreviation InsufficientFactors :: error where
  "InsufficientFactors \<equiv>
     TRPCError BAD_REQUEST ''You need to provide 2 of the following: Password, 2FA Code, Recovery Code''"

abbreviation AccountNotFound :: error where
  "AccountNotFound \<equiv> TRPCError NOT_FOUND ''User not found''"

abbreviation PasswordSignInDisabled :: error where
  "PasswordSignInDisabled \<equiv> TRPCError METHOD_NOT_SUPPORTED ''Password sign-in is not enabled''"

abbreviation InvalidCredentials :: error where
  "InvalidCredentials \<equiv> H3Error 400 ''Incorrect username or password''"

abbreviation OtpSignInDisabled :: error where
  "OtpSignInDisabled \<equiv> TRPCError METHOD_NOT_SUPPORTED ''2FA sign-in is not enabled''"

abbreviation InvalidOtp :: error where
  "InvalidOtp \<equiv> TRPCError UNAUTHORIZED ''Invalid 2FA code''"

abbreviation RecoverySignInDisabled :: error where
  "RecoverySignInDisabled \<equiv> TRPCError METHOD_NOT_SUPPORTED ''Recovery code sign-in is not enabled''"

abbreviation InvalidRecoveryCode :: error where
  "InvalidRecoveryCode \<equiv> TRPCError UNAUTHORIZED ''Invalid recovery code''"

abbreviation AuthenticationFailed :: error where
  "AuthenticationFailed \<equiv> TRPCError UNAUTHORIZED ''Something went wrong, please contact support''"

abbreviation IncorrectOldPassword :: error where
  "IncorrectOldPassword \<equiv> TRPCError UNAUTHORIZED ''Incorrect old password''"

abbreviation TwoFactorNotEnabled :: error where
  "TwoFactorNotEnabled \<equiv>
     TRPCError METHOD_NOT_SUPPORTED ''2FA is not enabled on this account, contact support''"

section \<open>Data model\<close>

text \<open>
  A row of the \<open>accounts\<close> table, with the columns the router reads and writes. The
  source's column \<open>id\<close> is the field \<open>accountId\<close> (the name the router binds it to).
  A nullable column is an \<open>option\<close>.
\<close>

record account =
  accountId :: nat
  publicId :: string
  username :: string
  passwordHash :: "string option"
  twoFactorSecret :: "string option"
  recoveryCode :: "string option"
  lastLoginAt :: "nat option"

record session =
  sessionId :: nat
  userId :: nat

record cookie =
  cookie_name :: string
  cookie_value :: nat

text \<open>The calls the router makes on the account store, in the order it makes them.\<close>

datatype db_call =
    FindByUsername string
  | FindById nat
  | UpdateWhereId nat
  | Transaction

text \<open>The calls the router makes on the session issuer, in the order it makes them.\<close>

datatype session_call =
    CreateSession nat
  | InvalidateUserSessions nat

text \<open>
  Everything a request can change: the rows of the account store, the session store,
  the cookies set on the response, what was written to \<open>console.error\<close>, and the
  logs of the calls to the account store and to the session issuer.
\<close>

record world =
  accounts :: "account list"
  sessions :: "session list"
  session_counter :: nat
  cookies :: "cookie list"
  console :: "error list"
  db_calls :: "db_call list"
  session_calls :: "session_call list"

text \<open>
  The calls that the sign-in handler makes once its decision has fallen (lines 204 to 214):
  \<open>createLuciaSessionCookie\<close>, \<open>setCookie\<close> and the update of \<open>lastLoginAt\<close>.
\<close>

datatype call_site = CreateSessionCookie | SetCookie | UpdateLastLoginAt

text \<open>
  The collaborators whose code is outside the router, as parameters:
  \<^item> \<open>argon2_hash\<close>, \<open>argon2_verify\<close>: \<open>new Argon2id().hash(secret)\<close> and
    \<open>.verify(hash, secret)\<close>;
  \<^item> \<open>decodeHex\<close>, \<open>totp_verify\<close>: \<open>decodeHex(secret)\<close> and
    \<open>new TOTPController().verify(code, secretBytes)\<close>;
  \<^item> \<open>validateUsername\<close>: \<open>validateUsername(tx, username)\<close>, giving
    \<open>{available, error}\<close>;
  \<^item> \<open>typeIdGenerator\<close>: the value of \<open>typeIdGenerator('account')\<close>;
  \<^item> \<open>insert_failure\<close>: the error, if any, with which the store rejects the insertion
    of a row for a username into a table;
  \<^item> \<open>tx_rollback\<close>: the exception, if any, that the call \<open>tx.rollback()\<close> raises;
  \<^item> \<open>now\<close>: the value of \<open>new Date()\<close>;
  \<^item> \<open>raises\<close>: for each call the sign-in handler makes after its decision, the
    message of the exception that the call throws instead of returning, if any. The
    handler has no \<open>try\<close> around these calls, so the exception ends the request; a
    call that throws has no effect.
\<close>

record env =
  argon2_hash :: "string \<Rightarrow> error + string"
  argon2_verify :: "string \<Rightarrow> string \<Rightarrow> bool"
  decodeHex :: "string \<Rightarrow> nat list"
  totp_verify :: "string \<Rightarrow> nat list \<Rightarrow> bool"
  validateUsername :: "account list \<Rightarrow> string \<Rightarrow> error + (bool \<times> string option)"
  typeIdGenerator :: string
  insert_failure :: "account list \<Rightarrow> string \<Rightarrow> error option"
  tx_rollback :: "error option"
  now :: nat
  raises :: "call_site \<Rightarrow> string option"

text \<open>
  JavaScript truthiness of an optional string: \<open>undefined\<close>, \<open>null\<close> and the
  empty string are falsy. \<open>truthy x\<close> is the string when \<open>x\<close> is truthy.
\<close>

definition truthy :: "string option \<Rightarrow> string option" where
  "truthy x = (case x of None \<Rightarrow> None | Some s \<Rightarrow> if s = [] then None else Some s)"

definition is_truthy :: "string option \<Rightarrow> bool" where
  "is_truthy x = (truthy x \<noteq> None)"

section \<open>Store and session operations\<close>

definition log_call :: "db_call \<Rightarrow> world \<Rightarrow> world" where
  "log_call c w = w\<lparr>db_calls := db_calls w @ [c]\<rparr>"

text \<open>\<open>db.query.accounts.findFirst({where: eq(accounts.username, u)})\<close>\<close>

definition findFirst_username :: "string \<Rightarrow> world \<Rightarrow> account option \<times> world" where
  "findFirst_username u w =
     (find (\<lambda>a. username a = u) (accounts w), log_call (FindByUsername u) w)"

text \<open>\<open>db.query.accounts.findFirst({where: eq(accounts.id, i)})\<close>\<close>

definition findFirst_id :: "nat \<Rightarrow> world \<Rightarrow> account option \<times> world" where
  "findFirst_id i w =
     (find (\<lambda>a. accountId a = i) (accounts w), log_call (FindById i) w)"

text \<open>\<open>db.update(accounts).set(...).where(eq(accounts.id, i))\<close>: every row with that id.\<close>

definition update_where_id :: "nat \<Rightarrow> (account \<Rightarrow> account) \<Rightarrow> world \<Rightarrow> world" where
  "update_where_id i f w =
     log_call (UpdateWhereId i)
       (w\<lparr>accounts := map (\<lambda>a. if accountId a = i then f a else a) (accounts w)\<rparr>)"

text \<open>
  Modelled from the spec: \<open>createLuciaSessionCookie\<close> (utils/session) is not among the
  sources. The spec's SessionIssuer, given \<open>(accountId, username, publicId)\<close>, creates
  a session record and returns the artifact that delivers it. The session identifier is
  fresh; a counter stands for the random identifier.
\<close>

definition createLuciaSessionCookie :: "nat \<times> string \<times> string \<Rightarrow> world \<Rightarrow> cookie \<times> world" where
  "createLuciaSessionCookie ident w =
     (let sid = session_counter w in
      (\<lparr>cookie_name = ''session'', cookie_value = sid\<rparr>,
       w\<lparr>sessions := sessions w @ [\<lparr>sessionId = sid, userId = fst ident\<rparr>],
         session_counter := Suc sid,
         session_calls := session_calls w @ [CreateSession (fst ident)]\<rparr>))"

text \<open>\<open>setCookie(ctx.event, cookie.name, cookie.value, cookie.attributes)\<close>\<close>

definition setCookie :: "cookie \<Rightarrow> world \<Rightarrow> world" where
  "setCookie c w = w\<lparr>cookies := cookies w @ [c]\<rparr>"

text \<open>
  Modelled from the spec: \<open>lucia.invalidateUserSessions\<close> is the SessionIssuer's bulk
  invalidation of every existing session of one account.
\<close>

definition invalidateUserSessions :: "nat \<Rightarrow> world \<Rightarrow> world" where
  "invalidateUserSessions i w =
     w\<lparr>sessions := filter (\<lambda>s. userId s \<noteq> i) (sessions w),
       session_calls := session_calls w @ [InvalidateUserSessions i]\<rparr>"

section \<open>signInWithPassword\<close>

text \<open>
  The request as the handler tests it: each of the three factors may be absent or empty.
\<close>

record signin_input =
  in_username :: string
  in_password :: "string option"
  in_twoFactorCode :: "string option"
  in_recoveryCode :: "string option"

text \<open>Lines 119 to 139: the outcome \<open>validPassword\<close>, or the exception thrown.\<close>

definition verify_password :: "env \<Rightarrow> account \<Rightarrow> signin_input \<Rightarrow> error + bool" where
  "verify_password e userResponse inp =
     (case truthy (in_password inp) of
        None \<Rightarrow> Inr False
      | Some pw \<Rightarrow>
          (case truthy (passwordHash userResponse) of
             None \<Rightarrow> Inl (TRPCError METHOD_NOT_SUPPORTED ''Password sign-in is not enabled'')
           | Some h \<Rightarrow>
               (let validPassword = argon2_verify e h pw in
                if \<not> validPassword then Inl (H3Error 400 ''Incorrect username or password'')
                else Inr validPassword)))"

text \<open>Lines 141 to 161: the outcome \<open>otpValid\<close>, or the exception thrown.\<close>

definition verify_otp :: "env \<Rightarrow> account \<Rightarrow> signin_input \<Rightarrow> error + bool" where
  "verify_otp e userResponse inp =
     (case truthy (in_twoFactorCode inp) of
        None \<Rightarrow> Inr False
      | Some code \<Rightarrow>
          (case truthy (twoFactorSecret userResponse) of
             None \<Rightarrow> Inl (TRPCError METHOD_NOT_SUPPORTED ''2FA sign-in is not enabled'')
           | Some s \<Rightarrow>
               (let secret = decodeHex e s;
                    otpValid = totp_verify e code secret in
                if \<not> otpValid then Inl (TRPCError UNAUTHORIZED ''Invalid 2FA code'')
                else Inr otpValid)))"

text \<open>
  Lines 163 to 195: the outcome \<open>recoveryCodeValid\<close>, or the exception thrown. The hash
  that is verified is the one of the row read at line 100; the update that clears the
  code selects on the account id alone.
\<close>

definition verify_recoveryCode ::
  "env \<Rightarrow> account \<Rightarrow> signin_input \<Rightarrow> world \<Rightarrow> (error + bool) \<times> world" where
  "verify_recoveryCode e userResponse inp w =
     (case truthy (in_recoveryCode inp) of
        None \<Rightarrow> (Inr False, w)
      | Some rc \<Rightarrow>
          (case truthy (recoveryCode userResponse) of
             None \<Rightarrow>
               (Inl (TRPCError METHOD_NOT_SUPPORTED ''Recovery code sign-in is not enabled''), w)
           | Some h \<Rightarrow>
               (let isRecoveryCodeValid = argon2_verify e h rc in
                if isRecoveryCodeValid
                then (Inr True,
                      update_where_id (accountId userResponse) (\<lambda>a. a\<lparr>recoveryCode := None\<rparr>) w)
                else (Inl (TRPCError UNAUTHORIZED ''Invalid recovery code''), w))))"

text \<open>
  Lines 197 to 221: the decision on the three outcomes. When it accepts, the three calls
  of lines 204 to 214 run in turn, and the first that throws ends the request with what
  the earlier ones (and the clearing of the recovery code) have already done.
\<close>

definition decide ::
  "env \<Rightarrow> account \<Rightarrow> bool \<Rightarrow> bool \<Rightarrow> bool \<Rightarrow> world \<Rightarrow> (error + bool) \<times> world" where
  "decide e userResponse validPassword otpValid recoveryCodeValid w =
     (if (validPassword \<and> otpValid) \<or> (validPassword \<and> recoveryCodeValid) \<or>
         (otpValid \<and> recoveryCodeValid)
      then
        (case raises e CreateSessionCookie of
           Some m \<Rightarrow> (Inl (Thrown m), w)
         | None \<Rightarrow>
             (let (c, w1) = createLuciaSessionCookie
                              (accountId userResponse, username userResponse,
                               publicId userResponse) w
              in case raises e SetCookie of
                   Some m \<Rightarrow> (Inl (Thrown m), w1)
                 | None \<Rightarrow>
                     (let w2 = setCookie c w1
                      in case raises e UpdateLastLoginAt of
                           Some m \<Rightarrow> (Inl (Thrown m), w2)
                         | None \<Rightarrow>
                             (Inr True,
                              update_where_id (accountId userResponse)
                                (\<lambda>a. a\<lparr>lastLoginAt := Some (now e)\<rparr>) w2))))
      else (Inl (TRPCError UNAUTHORIZED ''Something went wrong, please contact support''), w))"

text \<open>
  Lines 119 to 221: what the handler does once \<open>findFirst\<close> has returned the row
  \<open>userResponse\<close>, on the world as it is then.
\<close>

definition signIn_after_lookup ::
  "env \<Rightarrow> account \<Rightarrow> signin_input \<Rightarrow> world \<Rightarrow> (error + bool) \<times> world" where
  "signIn_after_lookup e userResponse inp w =
     (case verify_password e userResponse inp of
        Inl err \<Rightarrow> (Inl err, w)
      | Inr validPassword \<Rightarrow>
          (case verify_otp e userResponse inp of
             Inl err \<Rightarrow> (Inl err, w)
           | Inr otpValid \<Rightarrow>
               (case verify_recoveryCode e userResponse inp w of
                  (Inl err, w1) \<Rightarrow> (Inl err, w1)
                | (Inr recoveryCodeValid, w1) \<Rightarrow>
                    decide e userResponse validPassword otpValid recoveryCodeValid w1)))"

text \<open>Lines 88 to 92: the condition under which the request is rejected as malformed.\<close>

definition fewer_than_two :: "signin_input \<Rightarrow> bool" where
  "fewer_than_two inp =
     (\<not> (is_truthy (in_password inp) \<and> is_truthy (in_twoFactorCode inp)) \<and>
      \<not> (is_truthy (in_password inp) \<and> is_truthy (in_recoveryCode inp)) \<and>
      \<not> (is_truthy (in_twoFactorCode inp) \<and> is_truthy (in_recoveryCode inp)))"

text \<open>The handler of \<open>signInWithPassword\<close>, lines 85 to 222.\<close>

definition signInWithPassword :: "env \<Rightarrow> signin_input \<Rightarrow> world \<Rightarrow> (error + bool) \<times> world" where
  "signInWithPassword e inp w =
     (if fewer_than_two inp
      then (Inl (TRPCError BAD_REQUEST
                   ''You need to provide 2 of the following: Password, 2FA Code, Recovery Code''), w)
      else
        (case findFirst_username (in_username inp) w of
           (None, w1) \<Rightarrow> (Inl (TRPCError NOT_FOUND ''User not found''), w1)
         | (Some userResponse, w1) \<Rightarrow> signIn_after_lookup e userResponse inp w1))"

text \<open>The number of factors of a request that are present (neither absent nor empty).\<close>

definition supplied_count :: "signin_input \<Rightarrow> nat" where
  "supplied_count inp =
     length (filter is_truthy [in_password inp, in_twoFactorCode inp, in_recoveryCode inp])"

section \<open>signUpWithPassword\<close>

record signup_input =
  up_username :: string
  up_password :: string

text \<open>
  \<open>tx.insert(accounts).values({username, publicId, passwordHash})\<close> on the rows the
  transaction sees: the store either rejects the insertion or appends the row under a
  newly generated id, which is the \<open>insertId\<close> of the result.

  Modelled from the spec: the \<open>accounts\<close> schema is not among the sources. A new row has
  one passwordHash and the generated public id; the other optional fields are absent.
\<close>

definition tx_insert ::
  "env \<Rightarrow> string \<times> string \<times> string \<Rightarrow> account list \<Rightarrow> error + (nat \<times> account list)" where
  "tx_insert e vals rows =
     (case vals of (u, pid, ph) \<Rightarrow>
        (case insert_failure e rows u of
           Some err \<Rightarrow> Inl err
         | None \<Rightarrow>
             (let insertId = Suc (fold max (map accountId rows) 0) in
              Inr (insertId,
                   rows @ [\<lparr>accountId = insertId, publicId = pid, username = u,
                            passwordHash = Some ph, twoFactorSecret = None,
                            recoveryCode = None, lastLoginAt = None\<rparr>]))))"

text \<open>
  Lines 34 to 52, the body of the \<open>try\<close>: the value returned together with the rows
  as the transaction has written them, or the exception raised.
\<close>

definition signUp_try ::
  "env \<Rightarrow> signup_input \<Rightarrow> account list \<Rightarrow> error + ((nat \<times> string) \<times> account list)" where
  "signUp_try e inp rows =
     (case validateUsername e rows (up_username inp) of
        Inl err \<Rightarrow> Inl err
      | Inr (available, error) \<Rightarrow>
          if \<not> available
          then Inl (TRPCError FORBIDDEN
                      (case truthy error of Some m \<Rightarrow> m | None \<Rightarrow> ''Username is not available''))
          else
            (case argon2_hash e (up_password inp) of
               Inl err \<Rightarrow> Inl err
             | Inr ph \<Rightarrow>
                 (let pid = typeIdGenerator e in
                  case tx_insert e (up_username inp, pid, ph) rows of
                    Inl err \<Rightarrow> Inl err
                  | Inr (insertId, rows1) \<Rightarrow> Inr ((insertId, pid), rows1))))"

text \<open>
  Lines 32 to 58, \<open>db.transaction(async (tx) => { try {...} catch (err) {...} })\<close>.
  When the callback returns, the rows written through \<open>tx\<close> are committed. When it
  throws, they are discarded and the exception goes on to the caller. The \<open>catch\<close>
  block runs \<open>tx.rollback(); console.error(err); throw err\<close> in this order, so the
  last two statements run only if the call \<open>tx.rollback()\<close> returns.
\<close>

definition signUp_transaction ::
  "env \<Rightarrow> signup_input \<Rightarrow> world \<Rightarrow> (error + (nat \<times> string)) \<times> world" where
  "signUp_transaction e inp w =
     (let w0 = log_call Transaction w in
      case signUp_try e inp (accounts w0) of
        Inr (r, rows1) \<Rightarrow> (Inr r, w0\<lparr>accounts := rows1\<rparr>)
      | Inl err \<Rightarrow>
          (case tx_rollback e of
             Some raised \<Rightarrow> (Inl raised, w0)
           | None \<Rightarrow> (Inl err, w0\<lparr>console := console w0 @ [err]\<rparr>)))"

text \<open>The handler of \<open>signUpWithPassword\<close>, lines 28 to 73.\<close>

definition signUpWithPassword :: "env \<Rightarrow> signup_input \<Rightarrow> world \<Rightarrow> (error + bool) \<times> world" where
  "signUpWithPassword e inp w =
     (case signUp_transaction e inp w of
        (Inl err, w1) \<Rightarrow> (Inl err, w1)
      | (Inr (newId, pid), w1) \<Rightarrow>
          (let (c, w2) = createLuciaSessionCookie (newId, up_username inp, pid) w1;
               w3 = setCookie c w2;
               w4 = update_where_id newId (\<lambda>a. a\<lparr>lastLoginAt := Some (now e)\<rparr>) w3
           in (Inr True, w4)))"

section \<open>updateUserPassword\<close>

record rotate_input =
  oldPassword :: string
  newPassword :: string
  otp :: string
  invalidateAllSessions :: bool

text \<open>
  The handler of \<open>updateUserPassword\<close>, lines 235 to 312. The account id comes from
  the caller's session (\<open>ctx.account.id\<close>).
\<close>

definition updateUserPassword :: "env \<Rightarrow> nat \<Rightarrow> rotate_input \<Rightarrow> world \<Rightarrow> (error + bool) \<times> world" where
  "updateUserPassword e aid inp w =
     (case findFirst_id aid w of
        (None, w1) \<Rightarrow> (Inl (TRPCError NOT_FOUND ''User not found''), w1)
      | (Some accountData, w1) \<Rightarrow>
          (case truthy (passwordHash accountData) of
             None \<Rightarrow> (Inl (TRPCError METHOD_NOT_SUPPORTED ''Password sign-in is not enabled''), w1)
           | Some h \<Rightarrow>
               if \<not> argon2_verify e h (oldPassword inp)
               then (Inl (TRPCError UNAUTHORIZED ''Incorrect old password''), w1)
               else
                 (case truthy (twoFactorSecret accountData) of
                    None \<Rightarrow>
                      (Inl (TRPCError METHOD_NOT_SUPPORTED
                              ''2FA is not enabled on this account, contact support''), w1)
                  | Some s \<Rightarrow>
                      if \<not> totp_verify e (otp inp) (decodeHex e s)
                      then (Inl (TRPCError UNAUTHORIZED ''Invalid 2FA code''), w1)
                      else
                        (case argon2_hash e (newPassword inp) of
                           Inl err \<Rightarrow> (Inl err, w1)
                         | Inr ph \<Rightarrow>
                             (let w2 = update_where_id aid (\<lambda>a. a\<lparr>passwordHash := Some ph\<rparr>) w1;
                                  w3 = (if invalidateAllSessions inp
                                        then invalidateUserSessions aid w2 else w2);
                                  (c, w4) = createLuciaSessionCookie
                                              (aid, username accountData, publicId accountData) w3;
                                  w5 = setCookie c w4
                              in (Inr True, w5))))))"

section \<open>A concrete store and concrete collaborators\<close>

text \<open>
  Deterministic stand-ins for the collaborators, used to run the handlers on concrete
  requests: a hash is the secret behind a prefix, the one-time code of the moment is
  \<open>492039\<close>, a username is available when no row has it, and \<open>tx.rollback()\<close>
  raises, as the transaction handle of the ORM does (its \<open>rollback\<close> has return type
  \<open>never\<close> and throws a TransactionRollbackError with message Rollback).
\<close>

definition demo_env :: env where
  "demo_env =
     \<lparr>argon2_hash = (\<lambda>s. Inr (''argon2id:'' @ s)),
      argon2_verify = (\<lambda>h s. h = ''argon2id:'' @ s),
      decodeHex = map of_char,
      totp_verify = (\<lambda>code secret. code = ''492039''),
      validateUsername =
        (\<lambda>rows u. if u \<in> set (map username rows)
                   then Inr (False, Some ''Already taken'') else Inr (True, None)),
      typeIdGenerator = ''a_01hw'',
      insert_failure = (\<lambda>rows u. None),
      tx_rollback = Some (Thrown ''TransactionRollbackError: Rollback''),
      now = 1700,
      raises = Map.empty\<rparr>"


definition alice :: account where
  "alice =
     \<lparr>accountId = 7, publicId = ''a_alice'', username = ''alice'',
      passwordHash = Some ''argon2id:Str0ng!Passw0rd'',
      twoFactorSecret = Some ''0a1b2c'',
      recoveryCode = Some ''argon2id:rescue-me'',
      lastLoginAt = None\<rparr>"

definition demo_world :: world where
  "demo_world =
     \<lparr>accounts = [alice], sessions = [\<lparr>sessionId = 0, userId = 7\<rparr>], session_counter = 1,
      cookies = [], console = [], db_calls = [], session_calls = []\<rparr>"

definition two_factor_request :: signin_input where
  "two_factor_request =
     \<lparr>in_username = ''alice'', in_password = Some ''Str0ng!Passw0rd'',
      in_twoFactorCode = None, in_recoveryCode = Some ''rescue-me''\<rparr>"

definition three_factor_request :: signin_input where
  "three_factor_request =
     \<lparr>in_username = ''alice'', in_password = Some ''Str0ng!Passw0rd'',
      in_twoFactorCode = Some ''000000'', in_recoveryCode = Some ''rescue-me''\<rparr>"

definition one_factor_request :: signin_input where
  "one_factor_request =
     \<lparr>in_username = ''alice'', in_password = Some ''Str0ng!Passw0rd'',
      in_twoFactorCode = None, in_recoveryCode = Some []\<rparr>"


definition taken_signup :: signup_input where
  "taken_signup = \<lparr>up_username = ''alice'', up_password = ''Str0ng!Passw0rd''\<rparr>"

definition rotate_request :: rotate_input where
  "rotate_request =
     \<lparr>oldPassword = ''Str0ng!Passw0rd'', newPassword = ''N3w!Passw0rd'', otp = ''492039'',
      invalidateAllSessions = True\<rparr>"

section \<open>What each factor of a request proves\<close>

text \<open>
  The value of the verification call the handler makes for a factor, for a request that
  supplies the factor to an account that has the credential enrolled; \<open>False\<close> when
  there is nothing to verify.
\<close>

definition password_verifies :: "env \<Rightarrow> account \<Rightarrow> signin_input \<Rightarrow> bool" where
  "password_verifies e u inp =
     (case truthy (in_password inp) of
        None \<Rightarrow> False
      | Some pw \<Rightarrow>
          (case truthy (passwordHash u) of None \<Rightarrow> False | Some h \<Rightarrow> argon2_verify e h pw))"

definition otp_verifies :: "env \<Rightarrow> account \<Rightarrow> signin_input \<Rightarrow> bool" where
  "otp_verifies e u inp =
     (case truthy (in_twoFactorCode inp) of
        None \<Rightarrow> False
      | Some code \<Rightarrow>
          (case truthy (twoFactorSecret u) of
             None \<Rightarrow> False
           | Some s \<Rightarrow> totp_verify e code (decodeHex e s)))"

definition recovery_verifies :: "env \<Rightarrow> account \<Rightarrow> signin_input \<Rightarrow> bool" where
  "recovery_verifies e u inp =
     (case truthy (in_recoveryCode inp) of
        None \<Rightarrow> False
      | Some rc \<Rightarrow>
          (case truthy (recoveryCode u) of None \<Rightarrow> False | Some h \<Rightarrow> argon2_verify e h rc))"

text \<open>
  The message of the first exception thrown by the calls of lines 204 to 214, if one of
  them throws.
\<close>

definition issue_fault :: "env \<Rightarrow> string option" where
  "issue_fault e =
     (case raises e CreateSessionCookie of
        Some m \<Rightarrow> Some m
      | None \<Rightarrow>
          (case raises e SetCookie of
             Some m \<Rightarrow> Some m
           | None \<Rightarrow> raises e UpdateLastLoginAt))"

section \<open>Two sign-in requests served at the same time\<close>

text \<open>
  A handler is suspended at each \<open>await\<close>, and another request can be served in
  between. In this schedule the lookups of both requests (line 100) complete before
  either handler goes on to line 119; then request A runs to its end, then request B.
  The result is the outcome of A, the outcome of B and the final world; it is \<open>None\<close>
  when a request does not get as far as line 119.
\<close>

definition interleaved_signIns ::
  "env \<Rightarrow> signin_input \<Rightarrow> signin_input \<Rightarrow> world \<Rightarrow>
     ((error + bool) \<times> (error + bool) \<times> world) option" where
  "interleaved_signIns e inpA inpB w =
     (if fewer_than_two inpA \<or> fewer_than_two inpB then None
      else
        (case findFirst_username (in_username inpA) w of
           (None, w1) \<Rightarrow> None
         | (Some uA, w1) \<Rightarrow>
             (case findFirst_username (in_username inpB) w1 of
                (None, w2) \<Rightarrow> None
              | (Some uB, w2) \<Rightarrow>
                  (case signIn_after_lookup e uA inpA w2 of
                     (rA, w3) \<Rightarrow>
                       (case signIn_after_lookup e uB inpB w3 of
                          (rB, w4) \<Rightarrow> Some (rA, rB, w4))))))"

section \<open>Sign-in: the precondition\<close>

lemma fewer_than_two_iff: "fewer_than_two inp \<longleftrightarrow> supplied_count inp < 2"
  by (simp add: fewer_than_two_def supplied_count_def)

text \<open>
  C5. A request with fewer than two of the factors password, OTP code and recovery code
  present is rejected with InsufficientFactors, and the world is left as it was: in
  particular no call to the account store has been logged, so the rejection comes before
  any lookup.
\<close>

theorem signIn_insufficient_factors:
  "supplied_count inp < 2 \<Longrightarrow>
     signInWithPassword e inp w = (Inl InsufficientFactors, w) \<and>
     db_calls (snd (signInWithPassword e inp w)) = db_calls w"
  by (simp add: signInWithPassword_def fewer_than_two_iff)

theorem signIn_insufficient_factors_witness:
  "supplied_count one_factor_request < 2 \<and>
   signInWithPassword demo_env one_factor_request demo_world = (Inl InsufficientFactors, demo_world) \<and>
   db_calls (snd (signInWithPassword demo_env one_factor_request demo_world)) = []"
  using signIn_insufficient_factors [of one_factor_request demo_env demo_world]
  by (simp add: supplied_count_def is_truthy_def truthy_def one_factor_request_def demo_world_def)

section \<open>Sign-in: the handler after the lookup\<close>

lemma accounts_log_call: "accounts (log_call c w) = accounts w"
  and sessions_log_call: "sessions (log_call c w) = sessions w"
  and cookies_log_call: "cookies (log_call c w) = cookies w"
  by (simp_all add: log_call_def)

lemma verify_password_eq:
  "verify_password e u inp =
     (if \<not> is_truthy (in_password inp) then Inr False
      else if \<not> is_truthy (passwordHash u) then Inl PasswordSignInDisabled
      else if password_verifies e u inp then Inr True else Inl InvalidCredentials)"
  by (simp add: verify_password_def password_verifies_def is_truthy_def split: option.splits)

lemma verify_otp_eq:
  "verify_otp e u inp =
     (if \<not> is_truthy (in_twoFactorCode inp) then Inr False
      else if \<not> is_truthy (twoFactorSecret u) then Inl OtpSignInDisabled
      else if otp_verifies e u inp then Inr True else Inl InvalidOtp)"
  by (simp add: verify_otp_def otp_verifies_def is_truthy_def split: option.splits)

lemma verify_recoveryCode_eq:
  "verify_recoveryCode e u inp w =
     (if \<not> is_truthy (in_recoveryCode inp) then (Inr False, w)
      else if \<not> is_truthy (recoveryCode u) then (Inl RecoverySignInDisabled, w)
      else if recovery_verifies e u inp
        then (Inr True, update_where_id (accountId u) (\<lambda>a. a\<lparr>recoveryCode := None\<rparr>) w)
      else (Inl InvalidRecoveryCode, w))"
  by (simp add: verify_recoveryCode_def recovery_verifies_def is_truthy_def split: option.splits)

lemma fst_decide:
  "fst (decide e u vp vo vr w) =
     (if (vp \<and> vo) \<or> (vp \<and> vr) \<or> (vo \<and> vr)
      then (case issue_fault e of None \<Rightarrow> Inr True | Some m \<Rightarrow> Inl (Thrown m))
      else Inl AuthenticationFailed)"
  by (simp add: decide_def issue_fault_def Let_def split: prod.splits option.splits)

text \<open>
  The outcome of lines 119 to 221 is a function of the request and of the row that the
  lookup returned; the world the handler resumes on plays no part in it.
\<close>

lemma fst_signIn_after_lookup:
  "fst (signIn_after_lookup e u inp w) =
     (if is_truthy (in_password inp) \<and> \<not> is_truthy (passwordHash u) then Inl PasswordSignInDisabled
      else if is_truthy (in_password inp) \<and> \<not> password_verifies e u inp then Inl InvalidCredentials
      else if is_truthy (in_twoFactorCode inp) \<and> \<not> is_truthy (twoFactorSecret u) then Inl OtpSignInDisabled
      else if is_truthy (in_twoFactorCode inp) \<and> \<not> otp_verifies e u inp then Inl InvalidOtp
      else if is_truthy (in_recoveryCode inp) \<and> \<not> is_truthy (recoveryCode u) then Inl RecoverySignInDisabled
      else if is_truthy (in_recoveryCode inp) \<and> \<not> recovery_verifies e u inp then Inl InvalidRecoveryCode
      else if fewer_than_two inp then Inl AuthenticationFailed
      else (case issue_fault e of None \<Rightarrow> Inr True | Some m \<Rightarrow> Inl (Thrown m)))"
  by (auto simp add: signIn_after_lookup_def verify_password_eq verify_otp_eq verify_recoveryCode_eq
      fst_decide fewer_than_two_def)

lemma fst_signInWithPassword:
  "fst (signInWithPassword e inp w) =
     (if fewer_than_two inp then Inl InsufficientFactors
      else
        (case find (\<lambda>a. username a = in_username inp) (accounts w) of
           None \<Rightarrow> Inl AccountNotFound
         | Some u \<Rightarrow> fst (signIn_after_lookup e u inp w)))"
  by (simp add: signInWithPassword_def findFirst_username_def fst_signIn_after_lookup
      split: option.splits)

lemma accounts_update_where_id:
  "accounts (update_where_id i f w) = map (\<lambda>a. if accountId a = i then f a else a) (accounts w)"
  by (simp add: update_where_id_def log_call_def)

lemma accounts_decide:
  "accounts (snd (decide e u vp vo vr w)) =
     (if ((vp \<and> vo) \<or> (vp \<and> vr) \<or> (vo \<and> vr)) \<and> issue_fault e = None
      then map (\<lambda>a. if accountId a = accountId u then a\<lparr>lastLoginAt := Some (now e)\<rparr> else a)
             (accounts w)
      else accounts w)"
  by (simp add: decide_def issue_fault_def Let_def accounts_update_where_id
      createLuciaSessionCookie_def setCookie_def split: prod.splits option.splits)

lemma find_map_same_key:
  assumes "\<And>a. P (f a) = P a"
  shows "find P (map f xs) = map_option f (find P xs)"
  using assms by (induction xs) simp_all

lemma password_verifiesD:
  "password_verifies e u inp \<Longrightarrow> is_truthy (in_password inp) \<and> is_truthy (passwordHash u)"
  by (simp add: password_verifies_def is_truthy_def split: option.splits)

lemma otp_verifiesD:
  "otp_verifies e u inp \<Longrightarrow> is_truthy (in_twoFactorCode inp) \<and> is_truthy (twoFactorSecret u)"
  by (simp add: otp_verifies_def is_truthy_def split: option.splits)

lemma recovery_verifiesD:
  "recovery_verifies e u inp \<Longrightarrow> is_truthy (in_recoveryCode inp) \<and> is_truthy (recoveryCode u)"
  by (simp add: recovery_verifies_def is_truthy_def split: option.splits)

lemma password_verifies_same_hash:
  "passwordHash u' = passwordHash u \<Longrightarrow> password_verifies e u' inp = password_verifies e u inp"
  by (simp add: password_verifies_def cong: option.case_cong)

lemma otp_verifies_same_secret:
  "twoFactorSecret u' = twoFactorSecret u \<Longrightarrow> otp_verifies e u' inp = otp_verifies e u inp"
  by (simp add: otp_verifies_def cong: option.case_cong)





section \<open>Sign-in: disabled factors and the decision\<close>

text \<open>
  C4. When the account found for the request has no passwordHash (absent, or empty, which
  the handler treats alike) and the request supplies a password and at least one other
  factor, sign-in fails with PasswordSignInDisabled: the outcome is neither
  InvalidCredentials nor a success, so the disabled factor is not skipped.
\<close>

theorem signIn_password_disabled:
  assumes "find (\<lambda>a. username a = in_username inp) (accounts w) = Some u"
    and "\<not> is_truthy (passwordHash u)"
    and "is_truthy (in_password inp)"
    and "is_truthy (in_twoFactorCode inp) \<or> is_truthy (in_recoveryCode inp)"
  shows "fst (signInWithPassword e inp w) = Inl PasswordSignInDisabled \<and>
         fst (signInWithPassword e inp w) \<noteq> Inl InvalidCredentials \<and>
         fst (signInWithPassword e inp w) \<noteq> Inr True"
  using assms by (auto simp: fst_signInWithPassword fst_signIn_after_lookup fewer_than_two_def)

theorem signIn_password_disabled_witness:
  "fst (signInWithPassword demo_env two_factor_request
          (demo_world\<lparr>accounts := [alice\<lparr>passwordHash := None\<rparr>]\<rparr>)) = Inl PasswordSignInDisabled"
  using signIn_password_disabled [of two_factor_request
          "demo_world\<lparr>accounts := [alice\<lparr>passwordHash := None\<rparr>]\<rparr>" "alice\<lparr>passwordHash := None\<rparr>" demo_env]
  by (simp add: two_factor_request_def demo_world_def alice_def is_truthy_def truthy_def)







section \<open>Sign-in: one failed factor, and the recovery code\<close>

lemma accounts_signIn_success:
  assumes found: "find (\<lambda>a. username a = in_username inp) (accounts w) = Some u"
    and ok: "fst (signInWithPassword e inp w) = Inr True"
    and rc: "is_truthy (in_recoveryCode inp)"
  shows "accounts (snd (signInWithPassword e inp w)) =
           map (\<lambda>a. if accountId a = accountId u
                     then a\<lparr>recoveryCode := None, lastLoginAt := Some (now e)\<rparr> else a)
             (accounts w)"
proof -
  let ?w1 = "log_call (FindByUsername (in_username inp)) w"
  have two: "\<not> fewer_than_two inp"
    using ok by (auto simp: fst_signInWithPassword)
  have run: "signInWithPassword e inp w = signIn_after_lookup e u inp ?w1"
    using two found by (simp add: signInWithPassword_def findFirst_username_def)
  have ok1: "fst (signIn_after_lookup e u inp w) = Inr True"
    using ok found two by (simp add: fst_signInWithPassword)
  have pw: "verify_password e u inp = Inr (is_truthy (in_password inp))"
    using ok1 password_verifiesD [of e u inp]
    by (auto simp: fst_signIn_after_lookup verify_password_eq split: if_splits)
  have otp: "verify_otp e u inp = Inr (is_truthy (in_twoFactorCode inp))"
    using ok1 otp_verifiesD [of e u inp]
    by (auto simp: fst_signIn_after_lookup verify_otp_eq split: if_splits)
  have rcv: "verify_recoveryCode e u inp ?w1 =
               (Inr True, update_where_id (accountId u) (\<lambda>a. a\<lparr>recoveryCode := None\<rparr>) ?w1)"
    using ok1 rc recovery_verifiesD [of e u inp]
    by (auto simp: fst_signIn_after_lookup verify_recoveryCode_eq split: if_splits)
  have other: "is_truthy (in_password inp) \<or> is_truthy (in_twoFactorCode inp)"
    using two rc by (auto simp: fewer_than_two_def)
  have returned: "issue_fault e = None"
    using ok1 by (simp add: fst_signIn_after_lookup split: if_splits option.splits)
  have "signIn_after_lookup e u inp ?w1 =
          decide e u (is_truthy (in_password inp)) (is_truthy (in_twoFactorCode inp)) True
            (update_where_id (accountId u) (\<lambda>a. a\<lparr>recoveryCode := None\<rparr>) ?w1)"
    by (simp add: signIn_after_lookup_def pw otp rcv)
  then show ?thesis
    using other returned
    by (auto simp: run accounts_decide accounts_update_where_id accounts_log_call)
qed

text \<open>
  C1, as the code has it. The handler verifies the supplied factors in the order password,
  OTP code, recovery code, and throws at the first one that does not verify. For a request
  that supplies all three factors to the account found for it, sign-in succeeds exactly
  when all three verify (and the calls of lines 204 to 214 return); when the three
  credentials are enrolled, the error is the one of the first factor that does not verify.
  A request with two valid factors and one wrong factor is rejected: with the right
  password, a wrong OTP code and the right recovery code, sign-in fails with InvalidOtp.
\<close>

theorem signIn_every_supplied_factor_must_verify:
  assumes "find (\<lambda>a. username a = in_username inp) (accounts w) = Some u"
    and "is_truthy (in_password inp)"
    and "is_truthy (in_twoFactorCode inp)"
    and "is_truthy (in_recoveryCode inp)"
  shows "(fst (signInWithPassword e inp w) = Inr True \<longleftrightarrow>
            password_verifies e u inp \<and> otp_verifies e u inp \<and> recovery_verifies e u inp \<and>
            issue_fault e = None) \<and>
         (is_truthy (passwordHash u) \<and> is_truthy (twoFactorSecret u) \<and> is_truthy (recoveryCode u) \<longrightarrow>
            fst (signInWithPassword e inp w) =
              (if \<not> password_verifies e u inp then Inl InvalidCredentials
               else if \<not> otp_verifies e u inp then Inl InvalidOtp
               else if \<not> recovery_verifies e u inp then Inl InvalidRecoveryCode
               else (case issue_fault e of None \<Rightarrow> Inr True | Some m \<Rightarrow> Inl (Thrown m))))"
proof -
  have enrolled: "is_truthy (passwordHash u)" if "password_verifies e u inp"
    using that by (simp add: password_verifies_def is_truthy_def split: option.splits)
  have enrolled_otp: "is_truthy (twoFactorSecret u)" if "otp_verifies e u inp"
    using that by (simp add: otp_verifies_def is_truthy_def split: option.splits)
  have enrolled_rc: "is_truthy (recoveryCode u)" if "recovery_verifies e u inp"
    using that by (simp add: recovery_verifies_def is_truthy_def split: option.splits)
  have two: "\<not> fewer_than_two inp"
    using assms by (simp add: fewer_than_two_def)
  have r: "fst (signInWithPassword e inp w) = fst (signIn_after_lookup e u inp w)"
    using assms(1) two by (simp add: fst_signInWithPassword)
  show ?thesis
    unfolding r using assms(2-4) two enrolled enrolled_otp enrolled_rc
    by (auto simp: fst_signIn_after_lookup split: option.splits)
qed

theorem signIn_every_supplied_factor_must_verify_witness:
  "fst (signInWithPassword demo_env three_factor_request demo_world) = Inl InvalidOtp \<and>
   fst (signInWithPassword demo_env
          (three_factor_request\<lparr>in_twoFactorCode := Some ''492039''\<rparr>) demo_world) = Inr True"
proof -
  have found: "find (\<lambda>a. username a = in_username three_factor_request) (accounts demo_world) = Some alice"
    by (simp add: three_factor_request_def demo_world_def alice_def)
  have found2: "find (\<lambda>a. username a = in_username (three_factor_request\<lparr>in_twoFactorCode := Some ''492039''\<rparr>))
                  (accounts demo_world) = Some alice"
    by (simp add: three_factor_request_def demo_world_def alice_def)
  show ?thesis
    using signIn_every_supplied_factor_must_verify [OF found, of demo_env]
      signIn_every_supplied_factor_must_verify [OF found2, of demo_env]
    by (simp add: three_factor_request_def demo_env_def alice_def is_truthy_def truthy_def
        password_verifies_def otp_verifies_def recovery_verifies_def issue_fault_def)
qed

theorem signIn_one_wrong_of_three_counterexample:
  "is_truthy (in_password three_factor_request) \<and>
   is_truthy (in_twoFactorCode three_factor_request) \<and>
   is_truthy (in_recoveryCode three_factor_request) \<and>
   fst (findFirst_username (in_username three_factor_request) demo_world) = Some alice \<and>
   password_verifies demo_env alice three_factor_request \<and>
   \<not> otp_verifies demo_env alice three_factor_request \<and>
   recovery_verifies demo_env alice three_factor_request \<and>
   fst (signInWithPassword demo_env three_factor_request demo_world) = Inl InvalidOtp"
  by (simp add: fst_signInWithPassword fst_signIn_after_lookup fewer_than_two_def
      issue_fault_def findFirst_username_def three_factor_request_def demo_world_def demo_env_def alice_def is_truthy_def truthy_def
      password_verifies_def otp_verifies_def recovery_verifies_def)

text \<open>
  C3, as the code has it. A sign-in that succeeds with a recovery code leaves every row of
  the account with recoveryCode absent. A later attempt for the same username with a
  correct password and a recovery code (the same one or any other) then fails, and never
  with InvalidRecoveryCode: when it carries no OTP code, or one that verifies, it meets
  the absent recoveryCode at line 167 and fails with RecoverySignInDisabled; when it
  carries an OTP code that cannot be verified, the OTP step of lines 143 to 161 comes
  first and it fails with OtpSignInDisabled or InvalidOtp.
\<close>

theorem signIn_recovery_code_single_use:
  assumes found: "find (\<lambda>a. username a = in_username inp) (accounts w) = Some u"
    and ok: "fst (signInWithPassword e inp w) = Inr True"
    and rc: "is_truthy (in_recoveryCode inp)"
    and again: "in_username inp2 = in_username inp" "is_truthy (in_recoveryCode inp2)"
      "password_verifies e u inp2"
  shows "(\<forall>a \<in> set (accounts (snd (signInWithPassword e inp w))).
            accountId a = accountId u \<longrightarrow> recoveryCode a = None) \<and>
         fst (signInWithPassword e inp2 (snd (signInWithPassword e inp w))) =
           (if is_truthy (in_twoFactorCode inp2) \<and> \<not> is_truthy (twoFactorSecret u)
            then Inl OtpSignInDisabled
            else if is_truthy (in_twoFactorCode inp2) \<and> \<not> otp_verifies e u inp2
            then Inl InvalidOtp
            else Inl RecoverySignInDisabled)"
proof -
  let ?g = "\<lambda>a. if accountId a = accountId u
                 then a\<lparr>recoveryCode := None, lastLoginAt := Some (now e)\<rparr> else a"
  let ?u' = "u\<lparr>recoveryCode := None, lastLoginAt := Some (now e)\<rparr>"
  let ?w' = "snd (signInWithPassword e inp w)"
  have rows: "accounts ?w' = map ?g (accounts w)"
    by (rule accounts_signIn_success [OF found ok rc])
  have cleared: "\<forall>a \<in> set (accounts ?w'). accountId a = accountId u \<longrightarrow> recoveryCode a = None"
    by (auto simp: rows)
  have "find (\<lambda>a. username a = in_username inp2) (accounts ?w') =
          map_option ?g (find (\<lambda>a. username a = in_username inp2) (accounts w))"
    unfolding rows by (rule find_map_same_key) simp
  then have found2: "find (\<lambda>a. username a = in_username inp2) (accounts ?w') = Some ?u'"
    using found again(1) by simp
  have pw_in: "is_truthy (in_password inp2)" and pw_hash: "is_truthy (passwordHash u)"
    using password_verifiesD [OF again(3)] by simp_all
  have two: "\<not> fewer_than_two inp2"
    using pw_in again(2) by (simp add: fewer_than_two_def)
  have pw2: "password_verifies e ?u' inp2"
    using again(3) password_verifies_same_hash [of ?u' u e inp2] by simp
  have otp2: "otp_verifies e ?u' inp2 = otp_verifies e u inp2"
    by (rule otp_verifies_same_secret) simp
  have gone: "\<not> is_truthy (recoveryCode ?u')"
    by (simp add: is_truthy_def truthy_def)
  have "fst (signInWithPassword e inp2 ?w') = fst (signIn_after_lookup e ?u' inp2 ?w')"
    using two by (simp add: fst_signInWithPassword found2)
  also have "\<dots> =
           (if is_truthy (in_twoFactorCode inp2) \<and> \<not> is_truthy (twoFactorSecret u)
            then Inl OtpSignInDisabled
            else if is_truthy (in_twoFactorCode inp2) \<and> \<not> otp_verifies e u inp2
            then Inl InvalidOtp
            else Inl RecoverySignInDisabled)"
    unfolding fst_signIn_after_lookup otp2
    using pw_in pw_hash pw2 again(2) gone by simp
  finally show ?thesis
    using cleared by (intro conjI) assumption+
qed

theorem signIn_recovery_code_single_use_witness:
  "fst (signInWithPassword demo_env two_factor_request demo_world) = Inr True \<and>
   fst (signInWithPassword demo_env two_factor_request
          (snd (signInWithPassword demo_env two_factor_request demo_world)))
     = Inl RecoverySignInDisabled"
proof -
  have found: "find (\<lambda>a. username a = in_username two_factor_request) (accounts demo_world) = Some alice"
    by (simp add: two_factor_request_def demo_world_def alice_def)
  have first: "fst (signInWithPassword demo_env two_factor_request demo_world) = Inr True"
    by (simp add: fst_signInWithPassword fst_signIn_after_lookup fewer_than_two_def
        issue_fault_def two_factor_request_def demo_world_def demo_env_def alice_def
        is_truthy_def truthy_def password_verifies_def otp_verifies_def recovery_verifies_def)
  have rc: "is_truthy (in_recoveryCode two_factor_request)"
    and otp: "\<not> is_truthy (in_twoFactorCode two_factor_request)"
    by (simp_all add: two_factor_request_def is_truthy_def truthy_def)
  have pw: "password_verifies demo_env alice two_factor_request"
    by (simp add: password_verifies_def two_factor_request_def demo_env_def alice_def truthy_def)
  note main = signIn_recovery_code_single_use [OF found first rc refl rc pw]
  from main [THEN conjunct2] otp
  have second: "fst (signInWithPassword demo_env two_factor_request
          (snd (signInWithPassword demo_env two_factor_request demo_world)))
     = Inl RecoverySignInDisabled"
    by simp
  from first second show ?thesis by (rule conjI)
qed

theorem signIn_recovery_code_reuse_counterexample:
  "fst (signInWithPassword demo_env two_factor_request demo_world) = Inr True \<and>
   fst (signInWithPassword demo_env two_factor_request
          (snd (signInWithPassword demo_env two_factor_request demo_world)))
     = Inl RecoverySignInDisabled \<and>
   fst (signInWithPassword demo_env two_factor_request
          (snd (signInWithPassword demo_env two_factor_request demo_world)))
     \<noteq> Inl InvalidRecoveryCode"
proof -
  have found: "find (\<lambda>a. username a = in_username two_factor_request) (accounts demo_world) = Some alice"
    by (simp add: two_factor_request_def demo_world_def alice_def)
  have first: "fst (signInWithPassword demo_env two_factor_request demo_world) = Inr True"
    by (simp add: fst_signInWithPassword fst_signIn_after_lookup fewer_than_two_def
        issue_fault_def two_factor_request_def demo_world_def demo_env_def alice_def is_truthy_def truthy_def
        password_verifies_def otp_verifies_def recovery_verifies_def)
  have rc: "is_truthy (in_recoveryCode two_factor_request)"
    by (simp add: two_factor_request_def is_truthy_def truthy_def)
  have rows: "accounts (snd (signInWithPassword demo_env two_factor_request demo_world)) =
                [alice\<lparr>recoveryCode := None, lastLoginAt := Some 1700\<rparr>]"
    by (simp add: accounts_signIn_success [OF found first rc])
       (simp add: demo_world_def demo_env_def)
  have second: "fst (signInWithPassword demo_env two_factor_request
          (snd (signInWithPassword demo_env two_factor_request demo_world)))
     = Inl RecoverySignInDisabled"
    unfolding fst_signInWithPassword rows
    by (simp add: fst_signIn_after_lookup fewer_than_two_def issue_fault_def
        two_factor_request_def demo_env_def alice_def is_truthy_def truthy_def
        password_verifies_def otp_verifies_def recovery_verifies_def)
  from first second show ?thesis by simp
qed

section \<open>Sign-in: two requests with the same recovery code\<close>

lemma two_factor_request_alone:
  "fst (signInWithPassword demo_env two_factor_request demo_world) = Inr True"
  by (simp add: fst_signInWithPassword fst_signIn_after_lookup fewer_than_two_def
      issue_fault_def two_factor_request_def demo_world_def demo_env_def alice_def is_truthy_def truthy_def
      password_verifies_def otp_verifies_def recovery_verifies_def)

text \<open>
  C2, as the code has it. The update that clears a verified recovery code selects on the
  account id alone: it empties the recoveryCode of every row of the account, whatever the
  store holds when it runs. The outcome of a sign-in is fixed by the row its lookup
  returned. So when two requests have both completed their lookup before either goes on,
  each gets the outcome it would get alone on the initial store: two requests that present
  the same valid recovery code and a correct password both succeed.
\<close>

theorem signIn_interleaved_outcomes:
  assumes "\<not> fewer_than_two inpA" and "\<not> fewer_than_two inpB"
    and "find (\<lambda>a. username a = in_username inpA) (accounts w) = Some uA"
    and "find (\<lambda>a. username a = in_username inpB) (accounts w) = Some uB"
  shows "(\<exists>w'. interleaved_signIns e inpA inpB w =
                 Some (fst (signInWithPassword e inpA w), fst (signInWithPassword e inpB w), w')) \<and>
         (\<forall>u w0. recovery_verifies e u inpA \<longrightarrow>
            (\<forall>a \<in> set (accounts (snd (verify_recoveryCode e u inpA w0))).
               accountId a = accountId u \<longrightarrow> recoveryCode a = None))"
proof -
  let ?w1 = "log_call (FindByUsername (in_username inpA)) w"
  let ?w2 = "log_call (FindByUsername (in_username inpB)) ?w1"
  let ?w3 = "snd (signIn_after_lookup e uA inpA ?w2)"
  let ?w4 = "snd (signIn_after_lookup e uB inpB ?w3)"
  have rA: "fst (signIn_after_lookup e uA inpA ?w2) = fst (signInWithPassword e inpA w)"
    using assms(1,3) by (simp add: fst_signInWithPassword fst_signIn_after_lookup)
  have rB: "fst (signIn_after_lookup e uB inpB ?w3) = fst (signInWithPassword e inpB w)"
    using assms(2,4) by (simp add: fst_signInWithPassword fst_signIn_after_lookup)
  have "interleaved_signIns e inpA inpB w =
          Some (fst (signIn_after_lookup e uA inpA ?w2), fst (signIn_after_lookup e uB inpB ?w3), ?w4)"
    using assms
    by (simp add: interleaved_signIns_def findFirst_username_def accounts_log_call case_prod_beta)
  then have run: "\<exists>w'. interleaved_signIns e inpA inpB w =
                 Some (fst (signInWithPassword e inpA w), fst (signInWithPassword e inpB w), w')"
    unfolding rA rB by (rule exI)
  have clear: "\<forall>u w0. recovery_verifies e u inpA \<longrightarrow>
            (\<forall>a \<in> set (accounts (snd (verify_recoveryCode e u inpA w0))).
               accountId a = accountId u \<longrightarrow> recoveryCode a = None)"
    using recovery_verifiesD [of e _ inpA]
    by (auto simp: verify_recoveryCode_eq accounts_update_where_id)
  from run clear show ?thesis by (rule conjI)
qed

theorem signIn_interleaved_outcomes_witness:
  "\<exists>w'. interleaved_signIns demo_env two_factor_request two_factor_request demo_world =
          Some (Inr True, Inr True, w')"
proof -
  have two: "\<not> fewer_than_two two_factor_request"
    by (simp add: fewer_than_two_def two_factor_request_def is_truthy_def truthy_def)
  have found: "find (\<lambda>a. username a = in_username two_factor_request) (accounts demo_world) = Some alice"
    by (simp add: two_factor_request_def demo_world_def alice_def)
  from signIn_interleaved_outcomes [OF two two found found, of demo_env]
  show ?thesis unfolding two_factor_request_alone by (rule conjunct1)
qed

theorem signIn_concurrent_recovery_code_counterexample:
  "map_option fst (interleaved_signIns demo_env two_factor_request two_factor_request demo_world)
     = Some (Inr True) \<and>
   map_option (fst \<circ> snd)
     (interleaved_signIns demo_env two_factor_request two_factor_request demo_world)
     = Some (Inr True)"
proof -
  let ?w1 = "log_call (FindByUsername ''alice'') demo_world"
  let ?w2 = "log_call (FindByUsername ''alice'') ?w1"
  let ?w3 = "snd (signIn_after_lookup demo_env alice two_factor_request ?w2)"
  have ok: "fst (signIn_after_lookup demo_env alice two_factor_request w) = Inr True" for w
    by (simp add: fst_signIn_after_lookup fewer_than_two_def issue_fault_def
      two_factor_request_def demo_env_def alice_def is_truthy_def truthy_def
      password_verifies_def otp_verifies_def recovery_verifies_def)
  have two: "\<not> fewer_than_two two_factor_request"
    by (simp add: fewer_than_two_def two_factor_request_def is_truthy_def truthy_def)
  have name: "in_username two_factor_request = ''alice''"
    by (simp add: two_factor_request_def)
  have found: "find (\<lambda>a. username a = ''alice'') (accounts demo_world) = Some alice"
    by (simp add: demo_world_def alice_def)
  have "interleaved_signIns demo_env two_factor_request two_factor_request demo_world =
          Some (fst (signIn_after_lookup demo_env alice two_factor_request ?w2),
                fst (signIn_after_lookup demo_env alice two_factor_request ?w3),
                snd (signIn_after_lookup demo_env alice two_factor_request ?w3))"
    by (simp add: interleaved_signIns_def two name findFirst_username_def accounts_log_call found
        case_prod_beta)
  then show ?thesis by (simp add: ok)
qed

section \<open>Sign-up: failure inside the transaction\<close>

text \<open>A sign-up that fails leaves no row, no session and no cookie behind.\<close>

lemma signUp_failure_atomic:
  assumes "fst (signUpWithPassword e inp w) = Inl err"
  shows "accounts (snd (signUpWithPassword e inp w)) = accounts w \<and>
         sessions (snd (signUpWithPassword e inp w)) = sessions w \<and>
         cookies (snd (signUpWithPassword e inp w)) = cookies w"
  using assms
  by (auto simp: signUpWithPassword_def signUp_transaction_def log_call_def Let_def
      split: sum.splits prod.splits option.splits)

text \<open>The steps whose failure makes the body of the \<open>try\<close> throw.\<close>

lemma signUp_failure_steps:
  "(\<exists>err. signUp_try e inp rows = Inl err) \<longleftrightarrow>
     (\<exists>err. validateUsername e rows (up_username inp) = Inl err) \<or>
     (\<exists>m. validateUsername e rows (up_username inp) = Inr (False, m)) \<or>
     (\<exists>m. validateUsername e rows (up_username inp) = Inr (True, m) \<and>
        ((\<exists>err. argon2_hash e (up_password inp) = Inl err) \<or>
         (\<exists>err. insert_failure e rows (up_username inp) = Some err)))"
  by (auto simp: signUp_try_def tx_insert_def Let_def
      split: sum.splits prod.splits if_splits option.splits)

text \<open>
  What the caller receives and what is logged when the body of the \<open>try\<close> throws
  \<open>err\<close>: the error is logged and re-raised only if \<open>tx.rollback()\<close> returns.
\<close>

lemma signUp_failure_raised:
  assumes "signUp_try e inp (accounts w) = Inl err"
  shows "fst (signUpWithPassword e inp w) =
           Inl (case tx_rollback e of Some raised \<Rightarrow> raised | None \<Rightarrow> err) \<and>
         console (snd (signUpWithPassword e inp w)) =
           (case tx_rollback e of Some raised \<Rightarrow> console w | None \<Rightarrow> console w @ [err])"
  using assms
  by (simp add: signUpWithPassword_def signUp_transaction_def log_call_def Let_def
      split: option.splits)

text \<open>
  C6. Sign-up is atomic, and an error inside the transaction is logged and re-raised. The
  first half holds for every failure (\<open>signUp_failure_atomic\<close>). The second half does
  not hold on the ORM's transaction handle: the \<open>catch\<close> block calls
  \<open>tx.rollback()\<close> before \<open>console.error(err)\<close> and \<open>throw err\<close>, and that call
  throws. A sign-up for a username that is taken fails inside the \<open>try\<close> with the
  FORBIDDEN error; the caller receives the exception of the rollback instead, and nothing
  has been written to the console.
\<close>

theorem signUp_taken_username_error_replaced:
  "signUp_try demo_env taken_signup (accounts demo_world) = Inl (TRPCError FORBIDDEN ''Already taken'') \<and>
   fst (signUpWithPassword demo_env taken_signup demo_world)
     = Inl (Thrown ''TransactionRollbackError: Rollback'') \<and>
   console (snd (signUpWithPassword demo_env taken_signup demo_world)) = [] \<and>
   accounts (snd (signUpWithPassword demo_env taken_signup demo_world)) = [alice] \<and>
   sessions (snd (signUpWithPassword demo_env taken_signup demo_world)) = sessions demo_world"
proof -
  have body: "signUp_try demo_env taken_signup (accounts demo_world) = Inl (TRPCError FORBIDDEN ''Already taken'')"
    by (simp add: signUp_try_def demo_env_def taken_signup_def demo_world_def alice_def truthy_def)
  have rb: "tx_rollback demo_env = Some (Thrown ''TransactionRollbackError: Rollback'')"
    by (simp add: demo_env_def)
  have run: "signUpWithPassword demo_env taken_signup demo_world =
               (Inl (Thrown ''TransactionRollbackError: Rollback''), log_call Transaction demo_world)"
    by (simp add: signUpWithPassword_def signUp_transaction_def Let_def accounts_log_call body rb)
  show ?thesis
    unfolding run using body by (simp add: log_call_def demo_world_def)
qed

section \<open>Password rotation\<close>

text \<open>
  C7. Once the account is found and the old password verifies, rotation fails with
  TwoFactorNotEnabled when the account has no twoFactorSecret, and with InvalidOtp when it
  has one and the supplied code does not verify. In both cases the rows of the store (and
  so the stored passwordHash) are the rows before the call, and no session is created and
  no cookie set.
\<close>

theorem rotate_requires_otp:
  assumes "find (\<lambda>a. accountId a = aid) (accounts w) = Some accountData"
    and "truthy (passwordHash accountData) = Some h"
    and "argon2_verify e h (oldPassword inp)"
  shows "(truthy (twoFactorSecret accountData) = None \<longrightarrow>
            fst (updateUserPassword e aid inp w) = Inl TwoFactorNotEnabled) \<and>
         (\<forall>s. truthy (twoFactorSecret accountData) = Some s \<and>
               \<not> totp_verify e (otp inp) (decodeHex e s) \<longrightarrow>
            fst (updateUserPassword e aid inp w) = Inl InvalidOtp) \<and>
         (truthy (twoFactorSecret accountData) = None \<or>
          (\<exists>s. truthy (twoFactorSecret accountData) = Some s \<and>
               \<not> totp_verify e (otp inp) (decodeHex e s)) \<longrightarrow>
            accounts (snd (updateUserPassword e aid inp w)) = accounts w \<and>
            sessions (snd (updateUserPassword e aid inp w)) = sessions w \<and>
            cookies (snd (updateUserPassword e aid inp w)) = cookies w)"
  using assms
  by (auto simp: updateUserPassword_def findFirst_id_def log_call_def)

theorem rotate_requires_otp_witness:
  "fst (updateUserPassword demo_env 7 (rotate_request\<lparr>otp := ''000000''\<rparr>) demo_world) = Inl InvalidOtp \<and>
   accounts (snd (updateUserPassword demo_env 7 (rotate_request\<lparr>otp := ''000000''\<rparr>) demo_world)) = [alice] \<and>
   fst (updateUserPassword demo_env 7 rotate_request
          (demo_world\<lparr>accounts := [alice\<lparr>twoFactorSecret := None\<rparr>]\<rparr>)) = Inl TwoFactorNotEnabled"
proof -
  have found: "find (\<lambda>a. accountId a = 7) (accounts demo_world) = Some alice"
    by (simp add: demo_world_def alice_def)
  have found2: "find (\<lambda>a. accountId a = 7) (accounts (demo_world\<lparr>accounts := [alice\<lparr>twoFactorSecret := None\<rparr>]\<rparr>))
                  = Some (alice\<lparr>twoFactorSecret := None\<rparr>)"
    by (simp add: alice_def)
  have h: "truthy (passwordHash alice) = Some ''argon2id:Str0ng!Passw0rd''"
    by (simp add: alice_def truthy_def)
  have h2: "truthy (passwordHash (alice\<lparr>twoFactorSecret := None\<rparr>)) = Some ''argon2id:Str0ng!Passw0rd''"
    by (simp add: alice_def truthy_def)
  have old: "argon2_verify demo_env ''argon2id:Str0ng!Passw0rd'' (oldPassword (rotate_request\<lparr>otp := ''000000''\<rparr>))"
    by (simp add: demo_env_def rotate_request_def)
  have old2: "argon2_verify demo_env ''argon2id:Str0ng!Passw0rd'' (oldPassword rotate_request)"
    by (simp add: demo_env_def rotate_request_def)
  show ?thesis
    using rotate_requires_otp [OF found h old] rotate_requires_otp [OF found2 h2 old2]
    by (simp add: alice_def truthy_def demo_env_def demo_world_def rotate_request_def)
qed

text \<open>
  C8. When a rotation with invalidateAllSessions succeeds, the handler has called the
  bulk invalidation and then the creation of the session, in this order. The sessions
  afterwards are the earlier sessions of the other accounts followed by the new session:
  the new session is the only session of the account, it has not been invalidated, and
  the cookie delivered carries its identifier.
\<close>

theorem rotate_invalidates_before_issuing:
  assumes "fst (updateUserPassword e aid inp w) = Inr True"
    and "invalidateAllSessions inp"
  shows "sessions (snd (updateUserPassword e aid inp w)) =
           filter (\<lambda>s. userId s \<noteq> aid) (sessions w) @ [\<lparr>sessionId = session_counter w, userId = aid\<rparr>] \<and>
         filter (\<lambda>s. userId s = aid) (sessions (snd (updateUserPassword e aid inp w))) =
           [\<lparr>sessionId = session_counter w, userId = aid\<rparr>] \<and>
         cookies (snd (updateUserPassword e aid inp w)) =
           cookies w @ [\<lparr>cookie_name = ''session'', cookie_value = session_counter w\<rparr>] \<and>
         session_calls (snd (updateUserPassword e aid inp w)) =
           session_calls w @ [InvalidateUserSessions aid, CreateSession aid]"
  using assms
  by (auto simp: updateUserPassword_def findFirst_id_def log_call_def update_where_id_def
      invalidateUserSessions_def createLuciaSessionCookie_def setCookie_def Let_def
      split: option.splits if_splits sum.splits)

theorem rotate_invalidates_before_issuing_witness:
  "fst (updateUserPassword demo_env 7 rotate_request demo_world) = Inr True \<and>
   sessions demo_world = [\<lparr>sessionId = 0, userId = 7\<rparr>] \<and>
   sessions (snd (updateUserPassword demo_env 7 rotate_request demo_world)) =
     [\<lparr>sessionId = 1, userId = 7\<rparr>] \<and>
   session_calls (snd (updateUserPassword demo_env 7 rotate_request demo_world)) =
     [InvalidateUserSessions 7, CreateSession 7]"
proof -
  have ok: "fst (updateUserPassword demo_env 7 rotate_request demo_world) = Inr True"
    by (simp add: updateUserPassword_def findFirst_id_def demo_world_def alice_def truthy_def
        demo_env_def rotate_request_def Let_def createLuciaSessionCookie_def)
  have inv: "invalidateAllSessions rotate_request"
    by (simp add: rotate_request_def)
  from rotate_invalidates_before_issuing [OF ok inv] ok show ?thesis
    by (simp add: demo_world_def)
qed

end
